theory Spec2Isabelle
  imports Main "HOL-Library.Sublist" "HOL-Library.Char_ord" "HOL-Library.List_Lexorder"
    "HOL-Library.Multiset"
begin

section \<open>The identifier lexer of the influx shell (cmd/influx/cli/cli.go)\<close>

text \<open>
  Go strings are byte sequences; \<^typ>\<open>string\<close> is a list of 8-bit characters, so a Go
  string is modelled byte for byte. \<open>parseNextIdentifier\<close> inspects \<open>stmt[0]\<close>, a byte.
  \<open>strings.FieldsFunc\<close> decodes runes, but every predicate used here gives one and the same
  answer (and leaves the closure state alone) for all bytes of a rune outside ASCII, so
  running the predicate byte by byte splits the string at the same places.
\<close>

definition isWhitespace :: "char \<Rightarrow> bool" where
  "isWhitespace ch = (ch = CHR '' '' \<or> ch = CHR 0x09 \<or> ch = CHR 0x0A)"

definition isLetter :: "char \<Rightarrow> bool" where
  "isLetter ch =
     (((of_char (CHR ''a'') :: nat) \<le> of_char ch \<and> (of_char ch :: nat) \<le> of_char (CHR ''z'')) \<or>
      ((of_char (CHR ''A'') :: nat) \<le> of_char ch \<and> (of_char ch :: nat) \<le> of_char (CHR ''Z'')))"

definition isDigit :: "char \<Rightarrow> bool" where
  "isDigit ch =
     ((of_char (CHR ''0'') :: nat) \<le> of_char ch \<and> (of_char ch :: nat) \<le> of_char (CHR ''9''))"

definition isIdentFirstChar :: "char \<Rightarrow> bool" where
  "isIdentFirstChar ch = (isLetter ch \<or> ch = CHR ''_'')"

definition isNotIdentChar :: "char \<Rightarrow> bool" where
  "isNotIdentChar ch = (\<not> (isLetter ch \<or> isDigit ch \<or> ch = CHR ''_''))"

text \<open>
  \<open>strings.FieldsFunc\<close> (Go 1.13): one pass over the string, the predicate called once per
  character in order. The open field is \<open>None\<close> when \<open>start < 0\<close>, otherwise the characters
  from \<open>start\<close> up to the cursor. The predicate may be a closure with state of its own
  (as in \<open>parseDoubleQuotedIdentifier\<close>), so it takes and returns that state.
\<close>

fun FieldsFunc_loop ::
  "('s \<Rightarrow> char \<Rightarrow> bool \<times> 's) \<Rightarrow> 's \<Rightarrow> string option \<Rightarrow> string \<Rightarrow> string list" where
  "FieldsFunc_loop f st cur [] = (case cur of None \<Rightarrow> [] | Some w \<Rightarrow> [w])"
| "FieldsFunc_loop f st cur (ch # rest) =
     (case f st ch of
        (True, st') \<Rightarrow>
          (case cur of
             None \<Rightarrow> FieldsFunc_loop f st' None rest
           | Some w \<Rightarrow> w # FieldsFunc_loop f st' None rest)
      | (False, st') \<Rightarrow>
          (case cur of
             None \<Rightarrow> FieldsFunc_loop f st' (Some [ch]) rest
           | Some w \<Rightarrow> FieldsFunc_loop f st' (Some (w @ [ch])) rest))"

definition FieldsFunc :: "('s \<Rightarrow> char \<Rightarrow> bool \<times> 's) \<Rightarrow> 's \<Rightarrow> string \<Rightarrow> string list" where
  "FieldsFunc f st0 s = FieldsFunc_loop f st0 None s"

definition TrimPrefix :: "string \<Rightarrow> string \<Rightarrow> string" where
  "TrimPrefix s p = (if take (length p) s = p then drop (length p) s else s)"

definition HasPrefix :: "string \<Rightarrow> string \<Rightarrow> bool" where
  "HasPrefix s p = (take (length p) s = p)"

definition parseUnquotedIdentifier :: "string \<Rightarrow> string \<times> string" where
  "parseUnquotedIdentifier stmt =
     (case FieldsFunc (\<lambda>u ch. (isNotIdentChar ch, u)) () stmt of
        field0 # _ \<Rightarrow> (field0, TrimPrefix stmt field0)
      | [] \<Rightarrow> ([], stmt))"

text \<open>The closure of \<open>parseDoubleQuotedIdentifier\<close>; its state is the flag \<open>escapeNext\<close>.\<close>

definition quoteSplit :: "bool \<Rightarrow> char \<Rightarrow> bool \<times> bool" where
  "quoteSplit escapeNext ch =
     (if ch = CHR 0x5C then (False, True)
      else if ch = CHR 0x22 then
        (if \<not> escapeNext then (True, escapeNext) else (False, False))
      else (False, escapeNext))"

definition parseDoubleQuotedIdentifier :: "string \<Rightarrow> string \<times> string" where
  "parseDoubleQuotedIdentifier stmt =
     (case FieldsFunc quoteSplit False stmt of
        field0 # _ \<Rightarrow> (field0, TrimPrefix stmt ([CHR 0x22] @ field0 @ [CHR 0x22]))
      | [] \<Rightarrow> ([], stmt))"

fun parseNextIdentifier :: "string \<Rightarrow> string \<times> string" where
  "parseNextIdentifier [] = ([], [])"
| "parseNextIdentifier (ch # rest) =
     (if isWhitespace ch then parseNextIdentifier rest
      else if isIdentFirstChar ch then parseUnquotedIdentifier (ch # rest)
      else if ch = CHR 0x22 then parseDoubleQuotedIdentifier (ch # rest)
      else ([], ch # rest))"


section \<open>INSERT statements\<close>

text \<open>
  \<open>strings.EqualFold\<close> against an ASCII string \<open>t\<close> (the code only passes \<open>insert\<close> and
  \<open>into\<close>). Two ASCII bytes match when equal or when one is an upper-case letter and the
  other the same letter in lower case. Unicode simple folding also puts U+017F (bytes
  C5 BF) in the orbit of \<open>s\<close> and U+212A (bytes E2 84 AA) in the orbit of \<open>k\<close>; no other
  character outside ASCII folds to an ASCII one.
\<close>

definition asciiFoldEq :: "char \<Rightarrow> char \<Rightarrow> bool" where
  "asciiFoldEq sr tr =
     (sr = tr \<or>
      (let lo = min (of_char sr :: nat) (of_char tr); hi = max (of_char sr :: nat) (of_char tr)
       in 65 \<le> lo \<and> lo \<le> 90 \<and> hi = lo + 32))"

fun EqualFold :: "string \<Rightarrow> string \<Rightarrow> bool" where
  "EqualFold [] [] = True"
| "EqualFold [] (tr # t) = False"
| "EqualFold (sr # s) [] = False"
| "EqualFold (sr # s) (tr # t) =
     (if (of_char sr :: nat) < 128 then asciiFoldEq sr tr \<and> EqualFold s t
      else if (tr = CHR ''s'' \<or> tr = CHR ''S'') \<and> take 2 (sr # s) = [CHR 0xC5, CHR 0xBF]
        then EqualFold (drop 1 s) t
      else if (tr = CHR ''k'' \<or> tr = CHR ''K'') \<and> take 3 (sr # s) = [CHR 0xE2, CHR 0x84, CHR 0xAA]
        then EqualFold (drop 2 s) t
      else False)"

text \<open>
  Modelled from the spec: \<open>client.Config\<close> is declared in the \<open>client\<close> package, which is
  not among the sources. The two fields are the settings every produced target carries,
  the session's precision and write consistency.
\<close>

record Config =
  Precision :: string
  WriteConsistency :: string

text \<open>The fields of the session (\<open>CommandLine\<close>) that the modelled functions read.\<close>

record CommandLine =
  Database :: string
  RetentionPolicy :: string
  ClientConfig :: Config
  Format :: string
  Chunked :: bool
  ChunkSize :: int
  NodeID :: int
  IgnoreSignals :: bool

text \<open>
  Modelled from the spec: \<open>client.Point\<close> and \<open>client.BatchPoints\<close> are declared in the
  \<open>client\<close> package, which is not among the sources. They hold the resolved target
  (database, retention policy, point text) with the fields \<open>parseInsert\<close> sets; the prefix
  \<open>bp\<close> keeps the field names apart from those of the session.
\<close>

record Point =
  Raw :: string

record BatchPoints =
  bpPoints :: "Point list"
  bpDatabase :: string
  bpRetentionPolicy :: string
  bpPrecision :: string
  bpWriteConsistency :: string

definition parseInto :: "CommandLine \<Rightarrow> string \<Rightarrow> BatchPoints" where
  "parseInto c stmt0 =
     (let (ident, stmt) = parseNextIdentifier stmt0;
          (db, rp) = (Database c, RetentionPolicy c);
          (db, ident, stmt) =
             (if HasPrefix stmt ''.''
              then (let (ident', stmt') = parseNextIdentifier (drop 1 stmt) in (ident, ident', stmt'))
              else (db, ident, stmt));
          (rp, stmt) = (if HasPrefix stmt '' '' then (ident, drop 1 stmt) else (rp, stmt))
      in \<lparr> bpPoints = [\<lparr> Raw = stmt \<rparr>],
           bpDatabase = db,
           bpRetentionPolicy = rp,
           bpPrecision = Precision (ClientConfig c),
           bpWriteConsistency = WriteConsistency (ClientConfig c) \<rparr>)"

text \<open>The error of \<open>parseInsert\<close> is modelled by its message.\<close>

definition parseInsert :: "CommandLine \<Rightarrow> string \<Rightarrow> string + BatchPoints" where
  "parseInsert c stmt =
     (let (i, point) = parseNextIdentifier stmt in
      if \<not> EqualFold i ''insert'' then Inl (''found '' @ i @ '', expected INSERT'')
      else (let (i2, r) = parseNextIdentifier point in
            if EqualFold i2 ''into'' then Inr (parseInto c r)
            else Inr \<lparr> bpPoints = [\<lparr> Raw = point \<rparr>],
                       bpDatabase = Database c,
                       bpRetentionPolicy = RetentionPolicy c,
                       bpPrecision = Precision (ClientConfig c),
                       bpWriteConsistency = WriteConsistency (ClientConfig c) \<rparr>))"

section \<open>The response renderer\<close>

text \<open>
  Modelled from the spec: the response shapes (\<open>client.Response\<close>, \<open>client.Result\<close>,
  \<open>client.Message\<close>, \<open>models.Row\<close>) are declared in the \<open>client\<close> and \<open>models\<close> packages,
  which are not among the sources. A response owns an ordered sequence of results, a result
  an ordered sequence of series (name, tag mapping, column names, ordered rows of values)
  and its messages; the fields are those the renderer reads.

  A value of a row is an \<open>interface{}\<close>: nil, a boolean, an integer of any width, or
  anything else (a float, a \<open>json.Number\<close>, a string), which \<open>interfaceToString\<close> prints with
  \<open>%v\<close>; the last kind is carried as that text. A Go map or slice may be nil, which
  \<open>reflect.DeepEqual\<close> tells apart from an empty one: \<open>None\<close> is nil. A tag map is given
  by its entries in the order the \<open>range\<close> loop happens to visit them (keys distinct).
\<close>

datatype Value = VNil | VBool bool | VInt int | VOther string

record Row =
  Name :: string
  Tags :: "(string \<times> string) list option"
  Columns :: "string list option"
  Values :: "Value list list"

record Message =
  Level :: string
  Text :: string

record Result =
  Series :: "Row list"
  Messages :: "Message list"

record Response =
  Results :: "Result list"

fun showNat :: "nat \<Rightarrow> string" where
  "showNat n =
     (if n < 10 then [char_of (of_char (CHR ''0'') + n)]
      else showNat (n div 10) @ [char_of (of_char (CHR ''0'') + n mod 10)])"

definition showInt :: "int \<Rightarrow> string" where
  "showInt i = (if i < 0 then ''-'' @ showNat (nat (- i)) else showNat (nat i))"

fun interfaceToString :: "Value \<Rightarrow> string" where
  "interfaceToString VNil = []"
| "interfaceToString (VBool b) = (if b then ''true'' else ''false'')"
| "interfaceToString (VInt i) = showInt i"
| "interfaceToString (VOther t) = t"

text \<open>\<open>strings.Join\<close>, \<open>strings.Split\<close> on a one-byte separator, and \<open>sort.Strings\<close>
  (increasing bytewise order, which is the lexicographic order of \<^typ>\<open>string\<close>).\<close>

fun Join :: "string list \<Rightarrow> string \<Rightarrow> string" where
  "Join [] sep = []"
| "Join [x] sep = x"
| "Join (x # y # ys) sep = x @ sep @ Join (y # ys) sep"

fun Split_loop :: "char \<Rightarrow> string \<Rightarrow> string \<Rightarrow> string list" where
  "Split_loop sep cur [] = [cur]"
| "Split_loop sep cur (ch # rest) =
     (if ch = sep then cur # Split_loop sep [] rest else Split_loop sep (cur @ [ch]) rest)"

definition Split :: "string \<Rightarrow> char \<Rightarrow> string list" where
  "Split s sep = Split_loop sep [] s"

definition sortStrings :: "string list \<Rightarrow> string list" where
  "sortStrings xs = sort xs"

text \<open>
  \<open>reflect.DeepEqual\<close> on two maps: both nil, or both not nil with the same entries (the
  keys of a map are distinct, so this is equality of the sets of entries); on two slices:
  both nil, or both not nil with the same elements in the same order.
\<close>

definition tagsEqual ::
  "(string \<times> string) list option \<Rightarrow> (string \<times> string) list option \<Rightarrow> bool" where
  "tagsEqual prev current =
     (case (prev, current) of
        (None, None) \<Rightarrow> True
      | (Some a, Some b) \<Rightarrow> set a = set b
      | _ \<Rightarrow> False)"

definition columnsEqual :: "string list option \<Rightarrow> string list option \<Rightarrow> bool" where
  "columnsEqual prev current = (prev = current)"

definition headersEqual :: "Row \<Rightarrow> Row \<Rightarrow> bool" where
  "headersEqual prev current =
     (if Name prev \<noteq> Name current then False
      else tagsEqual (Tags prev) (Tags current) \<and> columnsEqual (Columns prev) (Columns current))"

text \<open>The zero value of \<open>models.Row\<close>, the initial \<open>previousHeaders\<close>.\<close>

definition zeroRow :: Row where
  "zeroRow = \<lparr> Name = [], Tags = None, Columns = None, Values = [] \<rparr>"

text \<open>The tag loop of \<open>formatResults\<close>: append \<open>k=v\<close>, sort, for every entry.\<close>

definition gatherTags :: "(string \<times> string) list option \<Rightarrow> string list" where
  "gatherTags t =
     foldl (\<lambda>tags (k, v). sortStrings (tags @ [k @ ''='' @ v])) []
       (case t of None \<Rightarrow> [] | Some entries \<Rightarrow> entries)"

text \<open>One iteration of the loop over \<open>result.Series\<close>: \<open>rows\<close> comes in and goes out.\<close>

definition formatSeries ::
  "CommandLine \<Rightarrow> string \<Rightarrow> bool \<Rightarrow> string list \<Rightarrow> nat \<Rightarrow> Row \<Rightarrow> string list" where
  "formatSeries c separator suppressHeaders rows0 i row =
     (let tags = gatherTags (Tags row);
          columnNames = [];
          columnNames =
            (if Format c = ''csv'' then
               (let columnNames = (if length tags > 0 then [''tags''] @ columnNames else columnNames)
                in if Name row \<noteq> [] then [''name''] @ columnNames else columnNames)
             else columnNames);
          columnNames = columnNames @ (case Columns row of None \<Rightarrow> [] | Some cs \<Rightarrow> cs);
          rows = (if i > 0 \<and> Format c = ''column'' \<and> \<not> suppressHeaders then rows0 @ [[]] else rows0);
          rows =
            (if Format c = ''column'' \<and> \<not> suppressHeaders then
               (let rows = (if Name row \<noteq> [] then rows @ [''name: '' @ Name row] else rows)
                in if length tags > 0 then rows @ [''tags: '' @ Join tags '', ''] else rows)
             else rows);
          rows = (if \<not> suppressHeaders then rows @ [Join columnNames separator] else rows);
          rows =
            (if Format c = ''column'' \<and> \<not> suppressHeaders then
               rows @ [Join (map (\<lambda>columnName. replicate (length columnName) (CHR ''-'')) columnNames)
                         separator]
             else rows)
      in foldl (\<lambda>rows v.
           (let values = [];
                values =
                  (if Format c = ''csv'' then
                     (let values = (if Name row \<noteq> [] then values @ [Name row] else values)
                      in if length tags > 0 then values @ [Join tags '',''] else values)
                   else values);
                values = values @ map interfaceToString v
            in rows @ [Join values separator])) rows (Values row))"

fun formatResults_loop ::
  "CommandLine \<Rightarrow> string \<Rightarrow> bool \<Rightarrow> string list \<Rightarrow> nat \<Rightarrow> Row list \<Rightarrow> string list" where
  "formatResults_loop c separator suppressHeaders rows i [] = rows"
| "formatResults_loop c separator suppressHeaders rows i (row # rest) =
     formatResults_loop c separator suppressHeaders
       (formatSeries c separator suppressHeaders rows i row) (Suc i) rest"

definition formatResults :: "CommandLine \<Rightarrow> Result \<Rightarrow> string \<Rightarrow> bool \<Rightarrow> string list" where
  "formatResults c result separator suppressHeaders =
     formatResults_loop c separator suppressHeaders [] 0 (Series result)"

text \<open>
  What \<open>writeColumns\<close> writes, in program order: a message goes straight to \<open>w\<close>, every
  other line is handed to the tab writer (which aligns and flushes them later).
\<close>

datatype Out = Direct string | Tabbed string

text \<open>
  \<open>writeCSV\<close> and \<open>writeColumns\<close> compute \<open>suppressHeaders\<close> and the next
  \<open>previousHeaders\<close> by the same two statements, given here once.
\<close>

definition suppressed :: "Row \<Rightarrow> Result \<Rightarrow> bool" where
  "suppressed previousHeaders result =
     (case Series result of [] \<Rightarrow> False | s0 # _ \<Rightarrow> headersEqual previousHeaders s0)"

definition nextHeaders :: "Row \<Rightarrow> Result \<Rightarrow> Row" where
  "nextHeaders previousHeaders result =
     (case Series result of
        [] \<Rightarrow> previousHeaders
      | s0 # _ \<Rightarrow>
          if \<not> headersEqual previousHeaders s0
          then \<lparr> Name = Name s0, Tags = Tags s0, Columns = Columns s0, Values = [] \<rparr>
          else previousHeaders)"

fun writeColumns_loop :: "CommandLine \<Rightarrow> Row \<Rightarrow> nat \<Rightarrow> Result list \<Rightarrow> Out list" where
  "writeColumns_loop c previousHeaders i [] = []"
| "writeColumns_loop c previousHeaders i (result # rest) =
     (let msgs = map (\<lambda>m. Direct (Level m @ '': '' @ Text m @ ''.'')) (Messages result);
          suppressHeaders = suppressed previousHeaders result;
          previousHeaders' = nextHeaders previousHeaders result;
          blank = (if \<not> suppressHeaders \<and> i > 0 then [Tabbed []] else []);
          rows = formatResults c result [CHR 0x09] suppressHeaders
      in msgs @ blank @ map Tabbed rows @ writeColumns_loop c previousHeaders' (Suc i) rest)"

definition writeColumns :: "CommandLine \<Rightarrow> Response \<Rightarrow> Out list" where
  "writeColumns c response = writeColumns_loop c zeroRow 0 (Results response)"

text \<open>What \<open>writeCSV\<close> hands to \<open>csvw.Write\<close>: one record (a list of fields) per row.\<close>

fun writeCSV_loop :: "CommandLine \<Rightarrow> Row \<Rightarrow> Result list \<Rightarrow> string list list" where
  "writeCSV_loop c previousHeaders [] = []"
| "writeCSV_loop c previousHeaders (result # rest) =
     (let suppressHeaders = suppressed previousHeaders result;
          previousHeaders' = nextHeaders previousHeaders result;
          rows = formatResults c result [CHR 0x09] suppressHeaders
      in map (\<lambda>r. Split r (CHR 0x09)) rows @ writeCSV_loop c previousHeaders' rest)"

definition writeCSV :: "CommandLine \<Rightarrow> Response \<Rightarrow> string list list" where
  "writeCSV c response = writeCSV_loop c zeroRow (Results response)"

section \<open>Query execution\<close>

text \<open>
  Modelled from the spec: the query AST and \<open>influxql.WalkFunc\<close> belong to the \<open>influxql\<close>
  package, which is not among the sources. The spec says the rewriter walks the source nodes
  of every \<open>SELECT\<close>-shaped statement and visits each measurement reference; a source is a
  measurement reference or a subquery, which has sources of its own. The parser
  (\<open>ParseQuery\<close>) and the printer (\<open>String\<close>) are parameters of \<open>ExecuteQuery\<close>.
\<close>

record Measurement =
  mDatabase :: string
  mRetentionPolicy :: string
  mName :: string

datatype Source = MeasurementRef Measurement | SubQuery "Source list"

datatype Statement = SelectStatement "Source list" | OtherStatement string

text \<open>
  Modelled from the spec: \<open>influxql.WalkFunc\<close> on the sources of a statement calls the
  function on every node; the callback of \<open>ExecuteQuery\<close> acts on measurement references
  only, so the walk is given by what it does to them, at any depth of subqueries.
\<close>

fun WalkFunc :: "(Measurement \<Rightarrow> Measurement) \<Rightarrow> Source \<Rightarrow> Source" where
  "WalkFunc fn (MeasurementRef t) = MeasurementRef (fn t)"
| "WalkFunc fn (SubQuery sources) = SubQuery (map (WalkFunc fn) sources)"

text \<open>The callback handed to \<open>WalkFunc\<close> in \<open>ExecuteQuery\<close>; it updates the measurement in place.\<close>

definition scopeMeasurement :: "CommandLine \<Rightarrow> Measurement \<Rightarrow> Measurement" where
  "scopeMeasurement c t0 =
     (let t = (if mDatabase t0 = [] \<and> Database c \<noteq> [] then t0\<lparr>mDatabase := Database c\<rparr> else t0)
      in if mRetentionPolicy t = [] \<and> RetentionPolicy c \<noteq> []
         then t\<lparr>mRetentionPolicy := RetentionPolicy c\<rparr> else t)"

fun rewriteStatement :: "CommandLine \<Rightarrow> Statement \<Rightarrow> Statement" where
  "rewriteStatement c (SelectStatement sources) =
     SelectStatement (map (WalkFunc (scopeMeasurement c)) sources)"
| "rewriteStatement c (OtherStatement s) = OtherStatement s"

text \<open>The first block of \<open>ExecuteQuery\<close>: the query text to send, or the parse error.\<close>

definition rewriteSources ::
  "(string \<Rightarrow> string + Statement list) \<Rightarrow> (Statement list \<Rightarrow> string) \<Rightarrow>
   CommandLine \<Rightarrow> string \<Rightarrow> string + string" where
  "rewriteSources ParseQuery String c query =
     (if RetentionPolicy c \<noteq> [] then
        (case ParseQuery query of
           Inl err \<Rightarrow> Inl err
         | Inr statements \<Rightarrow> Inr (String (map (rewriteStatement c) statements)))
      else Inr query)"

text \<open>
  Modelled from the spec: \<open>client.Query\<close> is declared in the \<open>client\<close> package, which is not
  among the sources; the fields are those the function \<open>query\<close> fills from the session.
\<close>

record Query =
  qCommand :: string
  qDatabase :: string
  qRetentionPolicy :: string
  qChunked :: bool
  qChunkSize :: int
  qNodeID :: int

definition query :: "CommandLine \<Rightarrow> string \<Rightarrow> Query" where
  "query c q =
     \<lparr> qCommand = q, qDatabase = Database c, qRetentionPolicy = RetentionPolicy c,
       qChunked = Chunked c, qChunkSize = ChunkSize c, qNodeID = NodeID c \<rparr>"

text \<open>
  What \<open>ctx.Err()\<close> reports once \<open>QueryContext\<close> has returned. The context is
  \<open>context.Background()\<close> when signals are ignored, otherwise a \<open>WithCancel\<close> child that the
  relay goroutine cancels when a signal arrives; \<open>signalled\<close> says that it did.
\<close>

datatype ContextErr = Canceled | DeadlineExceeded

fun ctxErrText :: "ContextErr \<Rightarrow> string" where
  "ctxErrText Canceled = ''context canceled''"
| "ctxErrText DeadlineExceeded = ''context deadline exceeded''"

definition ctxErr :: "CommandLine \<Rightarrow> bool \<Rightarrow> ContextErr option" where
  "ctxErr c signalled = (if \<not> IgnoreSignals c \<and> signalled then Some Canceled else None)"

text \<open>The error branch after \<open>QueryContext\<close>; errors are modelled by their messages.\<close>

definition transportError :: "string \<Rightarrow> ContextErr option \<Rightarrow> string" where
  "transportError err cerr =
     (if err = [] then
        (if cerr = Some Canceled then ''aborted by user''
         else if cerr = None then ''no data received''
         else ctxErrText (the cerr))
      else err)"

text \<open>
  \<open>ExecuteQuery\<close> up to the point where the response is handed to \<open>FormatResponse\<close>:
  \<open>Inl\<close> is the error it returns (and prints after \<open>ERR:\<close>), \<open>Inr\<close> the response received.
  \<open>QueryContext\<close> is the transport: it yields an error message or a response.
\<close>

definition ExecuteQuery ::
  "(string \<Rightarrow> string + Statement list) \<Rightarrow> (Statement list \<Rightarrow> string) \<Rightarrow>
   (Query \<Rightarrow> string + 'r) \<Rightarrow> bool \<Rightarrow> CommandLine \<Rightarrow> string \<Rightarrow> string + 'r" where
  "ExecuteQuery ParseQuery String QueryContext signalled c query0 =
     (case rewriteSources ParseQuery String c query0 of
        Inl err \<Rightarrow> Inl err
      | Inr q \<Rightarrow>
          (case QueryContext (query c q) of
             Inl err \<Rightarrow> Inl (transportError err (ctxErr c signalled))
           | Inr response \<Rightarrow> Inr response))"

section \<open>Descriptions used in the statements\<close>

text \<open>
  The shape of an unquoted identifier as the statements below take it: not empty, starting
  with a letter or underscore, made of letters, digits and underscores.
\<close>

definition unquotedIdent :: "string \<Rightarrow> bool" where
  "unquotedIdent w =
     (w \<noteq> [] \<and> isIdentFirstChar (hd w) \<and> list_all (\<lambda>ch. \<not> isNotIdentChar ch) w)"

text \<open>The session of the spec's example: database \<open>d\<close>, retention policy \<open>r\<close>.\<close>

definition sessionDR :: CommandLine where
  "sessionDR =
     \<lparr> Database = ''d'', RetentionPolicy = ''r'',
       ClientConfig = \<lparr> Precision = ''ns'', WriteConsistency = ''all'' \<rparr>,
       Format = ''column'', Chunked = False, ChunkSize = 0, NodeID = 0, IgnoreSignals = False \<rparr>"

text \<open>The measurement references of a source tree and of a statement, in walking order.\<close>

fun measurementsOf :: "Source \<Rightarrow> Measurement list" where
  "measurementsOf (MeasurementRef t) = [t]"
| "measurementsOf (SubQuery sources) = concat (map measurementsOf sources)"

fun selectMeasurements :: "Statement \<Rightarrow> Measurement list" where
  "selectMeasurements (SelectStatement sources) = concat (map measurementsOf sources)"
| "selectMeasurements (OtherStatement s) = []"

text \<open>
  A session with retention policy \<open>rp1\<close>, and a stand-in parser and printer for the
  examples: the parser knows two queries, the printer writes every measurement with its
  database and retention policy.
\<close>

definition sessionRP1 :: CommandLine where
  "sessionRP1 =
     \<lparr> Database = ''mydb'', RetentionPolicy = ''rp1'',
       ClientConfig = \<lparr> Precision = ''ns'', WriteConsistency = ''all'' \<rparr>,
       Format = ''csv'', Chunked = False, ChunkSize = 0, NodeID = 0, IgnoreSignals = False \<rparr>"

definition exampleParse :: "string \<Rightarrow> string + Statement list" where
  "exampleParse q =
     (if q = ''SELECT * FROM cpu'' then
        Inr [SelectStatement [MeasurementRef \<lparr> mDatabase = [], mRetentionPolicy = [], mName = ''cpu'' \<rparr>]]
      else if q = ''SELECT * FROM cpu, (SELECT * FROM other.autogen.mem)'' then
        Inr [SelectStatement
               [MeasurementRef \<lparr> mDatabase = [], mRetentionPolicy = [], mName = ''cpu'' \<rparr>,
                SubQuery [MeasurementRef \<lparr> mDatabase = ''other'', mRetentionPolicy = ''autogen'',
                                           mName = ''mem'' \<rparr>]]]
      else Inl ''syntax error'')"

fun exampleSource :: "Source \<Rightarrow> string" where
  "exampleSource (MeasurementRef t) = mDatabase t @ ''.'' @ mRetentionPolicy t @ ''.'' @ mName t"
| "exampleSource (SubQuery sources) =
     ''(SELECT * FROM '' @ Join (map exampleSource sources) '', '' @ '')''"

fun exampleStatement :: "Statement \<Rightarrow> string" where
  "exampleStatement (SelectStatement sources) =
     ''SELECT * FROM '' @ Join (map exampleSource sources) '', ''"
| "exampleStatement (OtherStatement s) = s"

definition exampleString :: "Statement list \<Rightarrow> string" where
  "exampleString statements = Join (map exampleStatement statements) ''; ''"

text \<open>
  The renderer, described. The tags of a series are its \<open>key=value\<close> strings in increasing
  order; the columns are the column names (none for a nil slice).
\<close>

definition tagEntries :: "Row \<Rightarrow> (string \<times> string) list" where
  "tagEntries row = (case Tags row of None \<Rightarrow> [] | Some entries \<Rightarrow> entries)"

definition sortedTags :: "Row \<Rightarrow> string list" where
  "sortedTags row = sort (map (\<lambda>(k, v). k @ ''='' @ v) (tagEntries row))"

definition columnsOf :: "Row \<Rightarrow> string list" where
  "columnsOf row = (case Columns row of None \<Rightarrow> [] | Some cs \<Rightarrow> cs)"

text \<open>CSV: the fields of the header row and of the row of one value tuple.\<close>

definition csvHeaderFields :: "Row \<Rightarrow> string list" where
  "csvHeaderFields row =
     (if Name row \<noteq> [] then [''name''] else []) @
     (if tagEntries row \<noteq> [] then [''tags''] else []) @ columnsOf row"

definition csvValueFields :: "Row \<Rightarrow> Value list \<Rightarrow> string list" where
  "csvValueFields row v =
     (if Name row \<noteq> [] then [Name row] else []) @
     (if tagEntries row \<noteq> [] then [Join (sortedTags row) '',''] else []) @
     map interfaceToString v"

text \<open>Column format: the lines of one series when headers are shown, without the blank
  line that separates it from the series before it.\<close>

definition columnSeriesLines :: "string \<Rightarrow> Row \<Rightarrow> string list" where
  "columnSeriesLines sep row =
     (if Name row \<noteq> [] then [''name: '' @ Name row] else []) @
     (if tagEntries row \<noteq> [] then [''tags: '' @ Join (sortedTags row) '', ''] else []) @
     [Join (columnsOf row) sep,
      Join (map (\<lambda>columnName. replicate (length columnName) (CHR ''-'')) (columnsOf row)) sep] @
     map (\<lambda>v. Join (map interfaceToString v) sep) (Values row)"

definition columnLines :: "string \<Rightarrow> Result \<Rightarrow> string list" where
  "columnLines sep result =
     (case Series result of
        [] \<Rightarrow> []
      | s0 # ss \<Rightarrow> columnSeriesLines sep s0 @ concat (map (\<lambda>row. [] # columnSeriesLines sep row) ss))"

text \<open>The value rows of a result alone, for either format.\<close>

definition valueLines :: "CommandLine \<Rightarrow> string \<Rightarrow> Result \<Rightarrow> string list" where
  "valueLines c sep result =
     concat (map (\<lambda>row. map (\<lambda>v. Join (if Format c = ''csv'' then csvValueFields row v
                                         else map interfaceToString v) sep) (Values row))
              (Series result))"



text \<open>
  Example responses. In the first, two results with the same header (the tag map written
  in two orders) are followed by one with another header and by one without series. In
  the second, the first result has a series with no name, a nil tag map and nil columns.
\<close>

definition cpuRow :: "(string \<times> string) list \<Rightarrow> Value list list \<Rightarrow> Row" where
  "cpuRow tags vs =
     \<lparr> Name = ''cpu'', Tags = Some tags, Columns = Some [''time'', ''value''], Values = vs \<rparr>"

definition exampleResponse :: Response where
  "exampleResponse =
     \<lparr> Results =
        [\<lparr> Series = [cpuRow [(''host'', ''a''), (''dc'', ''x'')] [[VInt 1, VOther ''0.5'']]],
            Messages = [\<lparr> Level = ''warning'', Text = ''slow'' \<rparr>] \<rparr>,
         \<lparr> Series = [cpuRow [(''dc'', ''x''), (''host'', ''a'')] [[VInt 2, VBool True]]],
            Messages = [] \<rparr>,
         \<lparr> Series = [\<lparr> Name = ''mem'', Tags = None, Columns = Some [''time'', ''free''],
                        Values = [[VInt 3, VNil]] \<rparr>],
            Messages = [] \<rparr>,
         \<lparr> Series = [], Messages = [] \<rparr>] \<rparr>"

definition bareResult :: Result where
  "bareResult =
     \<lparr> Series = [\<lparr> Name = [], Tags = None, Columns = None, Values = [[VInt 7, VInt 8]] \<rparr>],
       Messages = [] \<rparr>"

text \<open>
  How an identifier \<open>ident\<close> is written in a statement: as it is when it is an unquoted
  identifier, or between double quotes when it is not empty and has no double quote and no
  backslash in it.
\<close>

definition identifierText :: "string \<Rightarrow> string \<Rightarrow> bool" where
  "identifierText written ident =
     ((unquotedIdent ident \<and> written = ident) \<or>
      (ident \<noteq> [] \<and> list_all (\<lambda>ch. ch \<noteq> CHR 0x22 \<and> ch \<noteq> CHR 0x5C) ident \<and>
       written = [CHR 0x22] @ ident @ [CHR 0x22]))"



section \<open>Properties of the lexer\<close>

lemma TrimPrefix_suffix: "suffix (TrimPrefix s p) s"
  by (simp add: TrimPrefix_def suffix_drop)

lemma parseUnquotedIdentifier_suffix: "suffix (snd (parseUnquotedIdentifier s)) s"
  by (simp add: parseUnquotedIdentifier_def TrimPrefix_suffix split: list.splits)

lemma parseDoubleQuotedIdentifier_suffix: "suffix (snd (parseDoubleQuotedIdentifier s)) s"
  by (simp add: parseDoubleQuotedIdentifier_def TrimPrefix_suffix split: list.splits)

text \<open>
  Claim C9. For every input string, the remainder returned by \<open>parseNextIdentifier\<close> is a
  suffix of the input, whichever path produced it: leading whitespace skipped, an unquoted
  identifier, a double-quoted one (terminated or not), or no identifier at all.
\<close>

theorem C9_remainder_is_suffix: "suffix (snd (parseNextIdentifier s)) s"
proof (induction s)
  case Nil
  show ?case by simp
next
  case (Cons ch rest)
  show ?case
  proof (cases "isWhitespace ch")
    case True
    with Cons show ?thesis by (simp add: suffix_Cons)
  next
    case False
    then show ?thesis
      by (simp add: parseUnquotedIdentifier_suffix parseDoubleQuotedIdentifier_suffix)
  qed
qed

text \<open>
  Claim C8. If \<open>ws\<close> consists of whitespace characters only (space, tab, newline), then
  \<open>parseNextIdentifier\<close> returns on \<open>ws\<close> followed by any text \<open>t\<close> the very pair it returns
  on \<open>t\<close> alone.
\<close>

theorem C8_leading_whitespace_skipped:
  "list_all isWhitespace ws \<Longrightarrow> parseNextIdentifier (ws @ t) = parseNextIdentifier t"
  by (induction ws) simp_all

theorem C8_leading_whitespace_skipped_witness:
  "list_all isWhitespace [CHR '' '', CHR 0x09, CHR 0x0A] \<and>
   parseNextIdentifier ([CHR '' '', CHR 0x09, CHR 0x0A] @ ''cpu value=1'') = (''cpu'', '' value=1'') \<and>
   parseNextIdentifier ''cpu value=1'' = (''cpu'', '' value=1'')"
proof -
  have ws: "list_all isWhitespace [CHR '' '', CHR 0x09, CHR 0x0A]"
    by (simp add: isWhitespace_def)
  have r: "parseNextIdentifier ''cpu value=1'' = (''cpu'', '' value=1'')"
    by code_simp
  from C8_leading_whitespace_skipped [OF ws, of "''cpu value=1''"] ws r
  show ?thesis by simp
qed

text \<open>An unquoted identifier is read up to the first character that cannot continue it.\<close>

lemma FieldsFunc_loop_run:
  "list_all (\<lambda>ch. \<not> p ch) w \<Longrightarrow>
   FieldsFunc_loop (\<lambda>u ch. (p ch, u)) () (Some v) (w @ rest) =
   FieldsFunc_loop (\<lambda>u ch. (p ch, u)) () (Some (v @ w)) rest"
  by (induction w arbitrary: v) simp_all

lemma FieldsFunc_first_field:
  assumes "w \<noteq> []" "list_all (\<lambda>ch. \<not> p ch) w" "rest = [] \<or> p (hd rest)"
  shows "\<exists>fs. FieldsFunc (\<lambda>u ch. (p ch, u)) () (w @ rest) = w # fs"
proof -
  obtain a w' where w: "w = a # w'" using assms(1) by (cases w) auto
  have a: "\<not> p a" and w': "list_all (\<lambda>ch. \<not> p ch) w'" using assms(2) w by auto
  have "FieldsFunc (\<lambda>u ch. (p ch, u)) () (w @ rest) =
        FieldsFunc_loop (\<lambda>u ch. (p ch, u)) () (Some w) rest"
    using a FieldsFunc_loop_run [OF w', where v = "[a]" and rest = rest]
    by (simp add: FieldsFunc_def w)
  moreover have "\<exists>fs. FieldsFunc_loop (\<lambda>u ch. (p ch, u)) () (Some w) rest = w # fs"
    using assms(3) by (cases rest) auto
  ultimately show ?thesis by simp
qed

lemma parseUnquotedIdentifier_run:
  assumes "w \<noteq> []" "list_all (\<lambda>ch. \<not> isNotIdentChar ch) w" "rest = [] \<or> isNotIdentChar (hd rest)"
  shows "parseUnquotedIdentifier (w @ rest) = (w, rest)"
proof -
  obtain fs where "FieldsFunc (\<lambda>u ch. (isNotIdentChar ch, u)) () (w @ rest) = w # fs"
    using FieldsFunc_first_field [OF assms] by blast
  then show ?thesis by (simp add: parseUnquotedIdentifier_def TrimPrefix_def)
qed


section \<open>Properties of INSERT statements\<close>

lemma isIdentFirstChar_not_whitespace: "isIdentFirstChar ch \<Longrightarrow> \<not> isWhitespace ch"
  by (auto simp: isIdentFirstChar_def isWhitespace_def isLetter_def)

lemma parseNextIdentifier_unquoted:
  assumes "unquotedIdent w" "rest = [] \<or> isNotIdentChar (hd rest)"
  shows "parseNextIdentifier (w @ rest) = (w, rest)"
proof -
  obtain a w' where w: "w = a # w'" using assms(1) by (cases w) (auto simp: unquotedIdent_def)
  have a: "isIdentFirstChar a" using assms(1) w by (simp add: unquotedIdent_def)
  have "parseNextIdentifier (w @ rest) = parseUnquotedIdentifier (w @ rest)"
    using a isIdentFirstChar_not_whitespace [OF a] by (simp add: w)
  also have "\<dots> = (w, rest)"
    using assms by (intro parseUnquotedIdentifier_run) (simp_all add: unquotedIdent_def)
  finally show ?thesis .
qed

lemma space_isNotIdentChar: "isNotIdentChar (CHR '' '')"
  by (simp add: isNotIdentChar_def isLetter_def isDigit_def)

lemma space_isWhitespace: "isWhitespace (CHR '' '')"
  by (simp add: isWhitespace_def)

lemma parseInto_ident_space:
  assumes "parseNextIdentifier r = (ident, CHR '' '' # point)"
  shows "parseInto c r =
     \<lparr> bpPoints = [\<lparr> Raw = point \<rparr>], bpDatabase = Database c, bpRetentionPolicy = ident,
       bpPrecision = Precision (ClientConfig c),
       bpWriteConsistency = WriteConsistency (ClientConfig c) \<rparr>"
  using assms by (simp add: parseInto_def HasPrefix_def)

lemma FieldsFunc_loop_quoted_run:
  "list_all (\<lambda>ch. ch \<noteq> CHR 0x22 \<and> ch \<noteq> CHR 0x5C) w \<Longrightarrow>
   FieldsFunc_loop quoteSplit False (Some v) (w @ rest) =
   FieldsFunc_loop quoteSplit False (Some (v @ w)) rest"
  by (induction w arbitrary: v) (simp_all add: quoteSplit_def)

lemma parseDoubleQuotedIdentifier_plain:
  assumes "body \<noteq> []" and "list_all (\<lambda>ch. ch \<noteq> CHR 0x22 \<and> ch \<noteq> CHR 0x5C) body"
  shows "parseDoubleQuotedIdentifier (CHR 0x22 # body @ CHR 0x22 # rest) = (body, rest)"
proof -
  obtain a b where body: "body = a # b" using assms(1) by (cases body) auto
  have a: "a \<noteq> CHR 0x22" "a \<noteq> CHR 0x5C"
    and b: "list_all (\<lambda>ch. ch \<noteq> CHR 0x22 \<and> ch \<noteq> CHR 0x5C) b"
    using assms(2) body by auto
  have "FieldsFunc quoteSplit False (CHR 0x22 # body @ CHR 0x22 # rest) =
        FieldsFunc_loop quoteSplit False (Some [a]) (b @ CHR 0x22 # rest)"
    using a by (simp add: FieldsFunc_def quoteSplit_def body)
  also have "\<dots> = FieldsFunc_loop quoteSplit False (Some body) (CHR 0x22 # rest)"
    using FieldsFunc_loop_quoted_run [OF b, where v = "[a]" and rest = "CHR 0x22 # rest"]
    by (simp add: body)
  also have "\<dots> = body # FieldsFunc_loop quoteSplit False None rest"
    by (simp add: quoteSplit_def)
  finally show ?thesis
    by (simp add: parseDoubleQuotedIdentifier_def TrimPrefix_def)
qed

lemma parseNextIdentifier_quoted:
  assumes "body \<noteq> []" and "list_all (\<lambda>ch. ch \<noteq> CHR 0x22 \<and> ch \<noteq> CHR 0x5C) body"
  shows "parseNextIdentifier (CHR 0x22 # body @ CHR 0x22 # rest) = (body, rest)"
proof -
  have "\<not> isWhitespace (CHR 0x22)" "\<not> isIdentFirstChar (CHR 0x22)"
    by (simp_all add: isWhitespace_def isIdentFirstChar_def isLetter_def)
  then show ?thesis
    using parseDoubleQuotedIdentifier_plain [OF assms] by simp
qed

lemma parseNextIdentifier_identifierText:
  assumes "identifierText written ident"
  shows "parseNextIdentifier (written @ CHR '' '' # point) = (ident, CHR '' '' # point)"
proof -
  from assms consider
    (plain) "unquotedIdent ident" "written = ident"
  | (quoted) "ident \<noteq> []" "list_all (\<lambda>ch. ch \<noteq> CHR 0x22 \<and> ch \<noteq> CHR 0x5C) ident"
      "written = [CHR 0x22] @ ident @ [CHR 0x22]"
    by (auto simp: identifierText_def)
  then show ?thesis
  proof cases
    case plain
    then show ?thesis
      using parseNextIdentifier_unquoted [of ident "CHR '' '' # point"]
      by (simp add: space_isNotIdentChar)
  next
    case quoted
    then show ?thesis
      using parseNextIdentifier_quoted [of ident "CHR '' '' # point"] by simp
  qed
qed

lemma parseInsert_into_lexed:
  assumes "parseNextIdentifier stmt = (i, rest1)" and "EqualFold i ''insert''"
    and "parseNextIdentifier rest1 = (i2, rest2)" and "EqualFold i2 ''into''"
    and "parseNextIdentifier rest2 = (ident, CHR '' '' # point)"
  shows "parseInsert c stmt =
     Inr \<lparr> bpPoints = [\<lparr> Raw = point \<rparr>], bpDatabase = Database c, bpRetentionPolicy = ident,
           bpPrecision = Precision (ClientConfig c),
           bpWriteConsistency = WriteConsistency (ClientConfig c) \<rparr>"
  using assms(1-4) parseInto_ident_space [OF assms(5), of c]
  by (simp add: parseInsert_def)

lemma parseInsert_into_text:
  assumes "unquotedIdent kw1" "EqualFold kw1 ''insert''"
    and "unquotedIdent kw2" "EqualFold kw2 ''into''"
    and "identifierText written ident"
  shows "parseInsert c (kw1 @ '' '' @ kw2 @ '' '' @ written @ '' '' @ point) =
     Inr \<lparr> bpPoints = [\<lparr> Raw = point \<rparr>], bpDatabase = Database c, bpRetentionPolicy = ident,
           bpPrecision = Precision (ClientConfig c),
           bpWriteConsistency = WriteConsistency (ClientConfig c) \<rparr>"
proof -
  let ?r = "'' '' @ written @ '' '' @ point"
  let ?p = "'' '' @ kw2 @ ?r"
  have 1: "parseNextIdentifier (kw1 @ ?p) = (kw1, ?p)"
    using assms(1) by (intro parseNextIdentifier_unquoted) (simp_all add: space_isNotIdentChar)
  have "parseNextIdentifier ?p = parseNextIdentifier (kw2 @ ?r)"
    by (simp add: space_isWhitespace)
  also have "\<dots> = (kw2, ?r)"
    using assms(3) by (intro parseNextIdentifier_unquoted) (simp_all add: space_isNotIdentChar)
  finally have 2: "parseNextIdentifier ?p = (kw2, ?r)" .
  have "parseNextIdentifier ?r = parseNextIdentifier (written @ CHR '' '' # point)"
    by (simp add: space_isWhitespace)
  also have "\<dots> = (ident, CHR '' '' # point)"
    by (rule parseNextIdentifier_identifierText [OF assms(5)])
  finally have 3: "parseNextIdentifier ?r = (ident, CHR '' '' # point)" .
  show ?thesis
    by (rule parseInsert_into_lexed [OF 1 assms(2) 2 assms(4) 3])
qed

text \<open>
  Claim C1, as the code has it. Take a statement whose first identifier folds to \<open>insert\<close>
  and whose next identifier folds to \<open>into\<close>. If the lexer then reads an identifier and
  leaves a remainder that starts with a space (so the identifier is followed by the one
  separating space, not by a dot), \<open>parseInsert\<close> succeeds: the identifier becomes the
  retention policy of the target, the database is the session's current database, and
  the point text is what follows that space. In particular this holds for
  \<open>INSERT INTO <ident> <point-text>\<close> with the keywords in any case and the identifier
  written either unquoted or in double quotes with a text that is not empty and has no
  double quote and no backslash; a quoted identifier gives its text without the quotes.
\<close>

theorem C1_into_identifier_is_retention_policy:
  "(parseNextIdentifier stmt = (i, rest1) \<and> EqualFold i ''insert'' \<and>
    parseNextIdentifier rest1 = (i2, rest2) \<and> EqualFold i2 ''into'' \<and>
    parseNextIdentifier rest2 = (ident, CHR '' '' # point) \<longrightarrow>
    parseInsert c stmt =
      Inr \<lparr> bpPoints = [\<lparr> Raw = point \<rparr>], bpDatabase = Database c, bpRetentionPolicy = ident,
            bpPrecision = Precision (ClientConfig c),
            bpWriteConsistency = WriteConsistency (ClientConfig c) \<rparr>) \<and>
   (unquotedIdent kw1 \<and> EqualFold kw1 ''insert'' \<and> unquotedIdent kw2 \<and> EqualFold kw2 ''into'' \<and>
    identifierText written ident' \<longrightarrow>
    parseInsert c (kw1 @ '' '' @ kw2 @ '' '' @ written @ '' '' @ point') =
      Inr \<lparr> bpPoints = [\<lparr> Raw = point' \<rparr>], bpDatabase = Database c, bpRetentionPolicy = ident',
            bpPrecision = Precision (ClientConfig c),
            bpWriteConsistency = WriteConsistency (ClientConfig c) \<rparr>)"
  using parseInsert_into_lexed [of stmt i rest1 i2 rest2 ident point c]
    parseInsert_into_text [of kw1 kw2 written "ident'" c "point'"]
  by blast


theorem C1_into_identifier_is_retention_policy_witness:
  "parseNextIdentifier ''insert  into  a_1 cpu value=1'' = (''insert'', ''  into  a_1 cpu value=1'') \<and>
   EqualFold ''insert'' ''insert'' \<and>
   parseNextIdentifier ''  into  a_1 cpu value=1'' = (''into'', ''  a_1 cpu value=1'') \<and>
   EqualFold ''into'' ''into'' \<and>
   parseNextIdentifier ''  a_1 cpu value=1'' = (''a_1'', CHR '' '' # ''cpu value=1'') \<and>
   parseInsert sessionDR ''insert  into  a_1 cpu value=1'' =
     Inr \<lparr> bpPoints = [\<lparr> Raw = ''cpu value=1'' \<rparr>], bpDatabase = ''d'',
           bpRetentionPolicy = ''a_1'', bpPrecision = ''ns'', bpWriteConsistency = ''all'' \<rparr> \<and>
   unquotedIdent ''INSERT'' \<and> EqualFold ''INSERT'' ''insert'' \<and>
   unquotedIdent ''INTO'' \<and> EqualFold ''INTO'' ''into'' \<and>
   identifierText ''mydb'' ''mydb'' \<and>
   identifierText ([CHR 0x22] @ ''my rp'' @ [CHR 0x22]) ''my rp'' \<and>
   parseInsert sessionDR (''INSERT'' @ '' '' @ ''INTO'' @ '' '' @ ''mydb'' @ '' '' @ ''cpu value=1'') =
     Inr \<lparr> bpPoints = [\<lparr> Raw = ''cpu value=1'' \<rparr>], bpDatabase = ''d'',
           bpRetentionPolicy = ''mydb'', bpPrecision = ''ns'', bpWriteConsistency = ''all'' \<rparr> \<and>
   parseInsert sessionDR
       (''INSERT'' @ '' '' @ ''INTO'' @ '' '' @ ([CHR 0x22] @ ''my rp'' @ [CHR 0x22]) @ '' '' @
        ''cpu value=1'') =
     Inr \<lparr> bpPoints = [\<lparr> Raw = ''cpu value=1'' \<rparr>], bpDatabase = ''d'',
           bpRetentionPolicy = ''my rp'', bpPrecision = ''ns'', bpWriteConsistency = ''all'' \<rparr>"
proof -
  have s: "Database sessionDR = ''d''" "Precision (ClientConfig sessionDR) = ''ns''"
    "WriteConsistency (ClientConfig sessionDR) = ''all''"
    by (simp_all add: sessionDR_def)
  have l1: "parseNextIdentifier ''insert  into  a_1 cpu value=1'' =
      (''insert'', ''  into  a_1 cpu value=1'')" by code_simp
  have l2: "EqualFold ''insert'' ''insert''" by code_simp
  have l3: "parseNextIdentifier ''  into  a_1 cpu value=1'' = (''into'', ''  a_1 cpu value=1'')"
    by code_simp
  have l4: "EqualFold ''into'' ''into''" by code_simp
  have l5: "parseNextIdentifier ''  a_1 cpu value=1'' = (''a_1'', CHR '' '' # ''cpu value=1'')"
    by code_simp
  have a: "unquotedIdent ''INSERT''" by code_simp
  have b: "EqualFold ''INSERT'' ''insert''" by code_simp
  have c: "unquotedIdent ''INTO''" by code_simp
  have d: "EqualFold ''INTO'' ''into''" by code_simp
  have e: "identifierText ''mydb'' ''mydb''" by code_simp
  have f: "identifierText ([CHR 0x22] @ ''my rp'' @ [CHR 0x22]) ''my rp''" by code_simp
  note t1 = C1_into_identifier_is_retention_policy
      [where stmt = "''insert  into  a_1 cpu value=1''" and i = "''insert''"
        and ?rest1.0 = "''  into  a_1 cpu value=1''" and ?i2.0 = "''into''"
        and ?rest2.0 = "''  a_1 cpu value=1''" and ident = "''a_1''" and point = "''cpu value=1''"
        and c = sessionDR and ?kw1.0 = "''INSERT''" and ?kw2.0 = "''INTO''" and written = "''mydb''"
        and ident' = "''mydb''" and point' = "''cpu value=1''"]
  note t2 = C1_into_identifier_is_retention_policy
      [where c = sessionDR and ?kw1.0 = "''INSERT''" and ?kw2.0 = "''INTO''"
        and written = "[CHR 0x22] @ ''my rp'' @ [CHR 0x22]"
        and ident' = "''my rp''" and point' = "''cpu value=1''"]
  have r1: "parseInsert sessionDR ''insert  into  a_1 cpu value=1'' =
     Inr \<lparr> bpPoints = [\<lparr> Raw = ''cpu value=1'' \<rparr>], bpDatabase = ''d'',
           bpRetentionPolicy = ''a_1'', bpPrecision = ''ns'', bpWriteConsistency = ''all'' \<rparr>"
    using t1 [THEN conjunct1, rule_format, OF conjI [OF l1 conjI [OF l2 conjI [OF l3 conjI [OF l4 l5]]]]]
    unfolding s .
  have r2: "parseInsert sessionDR (''INSERT'' @ '' '' @ ''INTO'' @ '' '' @ ''mydb'' @ '' '' @ ''cpu value=1'') =
     Inr \<lparr> bpPoints = [\<lparr> Raw = ''cpu value=1'' \<rparr>], bpDatabase = ''d'',
           bpRetentionPolicy = ''mydb'', bpPrecision = ''ns'', bpWriteConsistency = ''all'' \<rparr>"
    using t1 [THEN conjunct2, rule_format, OF conjI [OF a conjI [OF b conjI [OF c conjI [OF d e]]]]]
    unfolding s .
  have r3: "parseInsert sessionDR
       (''INSERT'' @ '' '' @ ''INTO'' @ '' '' @ ([CHR 0x22] @ ''my rp'' @ [CHR 0x22]) @ '' '' @
        ''cpu value=1'') =
     Inr \<lparr> bpPoints = [\<lparr> Raw = ''cpu value=1'' \<rparr>], bpDatabase = ''d'',
           bpRetentionPolicy = ''my rp'', bpPrecision = ''ns'', bpWriteConsistency = ''all'' \<rparr>"
    using t2 [THEN conjunct2, rule_format, OF conjI [OF a conjI [OF b conjI [OF c conjI [OF d f]]]]]
    unfolding s .
  show ?thesis
    by (intro conjI l1 l2 l3 l4 l5 r1 a b c d e f r2 r3)
qed

text \<open>
  The claim as stated says the identifier becomes the database and the retention policy
  stays the session's. For \<open>INSERT INTO mydb cpu value=1\<close> in a session with database \<open>d\<close>
  and retention policy \<open>r\<close> the target has database \<open>d\<close> and retention policy \<open>mydb\<close>.
\<close>

theorem C1_counterexample:
  "parseInsert sessionDR ''INSERT INTO mydb cpu value=1'' =
     Inr \<lparr> bpPoints = [\<lparr> Raw = ''cpu value=1'' \<rparr>], bpDatabase = ''d'',
           bpRetentionPolicy = ''mydb'', bpPrecision = ''ns'', bpWriteConsistency = ''all'' \<rparr> \<and>
   parseInsert sessionDR ''INSERT INTO mydb cpu value=1'' \<noteq>
     Inr \<lparr> bpPoints = [\<lparr> Raw = ''cpu value=1'' \<rparr>], bpDatabase = ''mydb'',
           bpRetentionPolicy = ''r'', bpPrecision = ''ns'', bpWriteConsistency = ''all'' \<rparr>"
  by code_simp

text \<open>
  Claim C6, as the code has it. If the first identifier of the statement folds to \<open>insert\<close>
  and the identifier after it does not fold to \<open>into\<close>, \<open>parseInsert\<close> succeeds with the
  session's database and retention policy and with the whole remainder after \<open>INSERT\<close> as
  point text, the whitespace after the keyword included. Every target that \<open>parseInsert\<close>
  produces carries the session's precision and write consistency.
\<close>

theorem C6_insert_without_into:
  "(parseNextIdentifier stmt = (i, point) \<and> EqualFold i ''insert'' \<and>
    \<not> EqualFold (fst (parseNextIdentifier point)) ''into'' \<longrightarrow>
    parseInsert c stmt =
      Inr \<lparr> bpPoints = [\<lparr> Raw = point \<rparr>], bpDatabase = Database c,
            bpRetentionPolicy = RetentionPolicy c, bpPrecision = Precision (ClientConfig c),
            bpWriteConsistency = WriteConsistency (ClientConfig c) \<rparr>) \<and>
   (parseInsert c stmt = Inr bp \<longrightarrow>
    bpPrecision bp = Precision (ClientConfig c) \<and>
    bpWriteConsistency bp = WriteConsistency (ClientConfig c))"
  by (auto simp: parseInsert_def parseInto_def Let_def split: prod.splits if_splits)

theorem C6_insert_without_into_witness:
  "parseNextIdentifier ''insert cpu value=1'' = (''insert'', '' cpu value=1'') \<and>
   EqualFold ''insert'' ''insert'' \<and>
   \<not> EqualFold (fst (parseNextIdentifier '' cpu value=1'')) ''into'' \<and>
   parseInsert sessionDR ''insert cpu value=1'' =
     Inr \<lparr> bpPoints = [\<lparr> Raw = '' cpu value=1'' \<rparr>], bpDatabase = ''d'',
           bpRetentionPolicy = ''r'', bpPrecision = ''ns'', bpWriteConsistency = ''all'' \<rparr>"
proof -
  have a: "parseNextIdentifier ''insert cpu value=1'' = (''insert'', '' cpu value=1'')" by code_simp
  have b: "EqualFold ''insert'' ''insert''" by code_simp
  have c: "\<not> EqualFold (fst (parseNextIdentifier '' cpu value=1'')) ''into''" by code_simp
  from C6_insert_without_into [of "''insert cpu value=1''" "''insert''" "'' cpu value=1''" sessionDR
      "\<lparr> bpPoints = [\<lparr> Raw = '' cpu value=1'' \<rparr>], bpDatabase = ''d'', bpRetentionPolicy = ''r'',
         bpPrecision = ''ns'', bpWriteConsistency = ''all'' \<rparr>"] a b c
  show ?thesis by (simp add: sessionDR_def)
qed

text \<open>
  The claim's example gives the point text of \<open>insert cpu value=1\<close> as \<open>cpu value=1\<close>; the
  code keeps the space after the keyword.
\<close>

theorem C6_counterexample:
  "parseInsert sessionDR ''insert cpu value=1'' =
     Inr \<lparr> bpPoints = [\<lparr> Raw = '' cpu value=1'' \<rparr>], bpDatabase = ''d'',
           bpRetentionPolicy = ''r'', bpPrecision = ''ns'', bpWriteConsistency = ''all'' \<rparr> \<and>
   parseInsert sessionDR ''insert cpu value=1'' \<noteq>
     Inr \<lparr> bpPoints = [\<lparr> Raw = ''cpu value=1'' \<rparr>], bpDatabase = ''d'',
           bpRetentionPolicy = ''r'', bpPrecision = ''ns'', bpWriteConsistency = ''all'' \<rparr>"
  by code_simp

text \<open>
  Claim C5 at the input made of a double quote, the letter a, two backslashes, a double
  quote, a space and the letter x. The second quote has an even number of backslashes
  before it and should close the identifier, which would be the letter a with the two
  backslashes, the remainder being the space and the x. The flag \<open>escapeNext\<close> is still
  set from the backslashes, so the quote is taken as escaped: the identifier runs to the
  end of the input and the remainder is the whole input.
\<close>

theorem C5_quote_after_two_backslashes:
  "parseNextIdentifier [CHR 0x22, CHR ''a'', CHR 0x5C, CHR 0x5C, CHR 0x22, CHR '' '', CHR ''x''] =
     ([CHR ''a'', CHR 0x5C, CHR 0x5C, CHR 0x22, CHR '' '', CHR ''x''],
      [CHR 0x22, CHR ''a'', CHR 0x5C, CHR 0x5C, CHR 0x22, CHR '' '', CHR ''x'']) \<and>
   parseNextIdentifier [CHR 0x22, CHR ''a'', CHR 0x5C, CHR 0x5C, CHR 0x22, CHR '' '', CHR ''x''] \<noteq>
     ([CHR ''a'', CHR 0x5C, CHR 0x5C], [CHR '' '', CHR ''x''])"
  by code_simp


section \<open>Properties of query execution\<close>

lemma measurementsOf_WalkFunc:
  "measurementsOf (WalkFunc fn s) = map fn (measurementsOf s)"
  by (induction s) (simp_all add: map_concat comp_def cong: map_cong)

lemma selectMeasurements_rewriteStatement:
  "selectMeasurements (rewriteStatement c st) = map (scopeMeasurement c) (selectMeasurements st)"
  by (cases st) (simp_all add: map_concat comp_def measurementsOf_WalkFunc)

lemma scopeMeasurement_fields:
  "mDatabase (scopeMeasurement c t) =
     (if mDatabase t = [] \<and> Database c \<noteq> [] then Database c else mDatabase t)"
  "mRetentionPolicy (scopeMeasurement c t) =
     (if mRetentionPolicy t = [] \<and> RetentionPolicy c \<noteq> [] then RetentionPolicy c
      else mRetentionPolicy t)"
  "mName (scopeMeasurement c t) = mName t"
  by (simp_all add: scopeMeasurement_def Let_def)

text \<open>
  Claim C3. With a retention policy set in the session and a query that parses, the text
  sent is the printed form of the rewritten statements; the rewriting keeps the number of
  statements and of measurement references, and for the \<open>j\<close>-th measurement reference in
  the sources of the \<open>k\<close>-th statement (subqueries included): an empty database becomes the
  session's database when that is not empty, an empty retention policy becomes the
  session's retention policy, a database or retention policy that is not empty stays, and
  so does the name.
\<close>

theorem C3_sources_scoped:
  assumes "RetentionPolicy c \<noteq> []" and "ParseQuery q = Inr statements"
  shows "rewriteSources ParseQuery String c q = Inr (String (map (rewriteStatement c) statements)) \<and>
    length (map (rewriteStatement c) statements) = length statements \<and>
    (\<forall>k < length statements.
       length (selectMeasurements (rewriteStatement c (statements ! k))) =
         length (selectMeasurements (statements ! k)) \<and>
       (\<forall>j < length (selectMeasurements (statements ! k)).
          let t = selectMeasurements (statements ! k) ! j;
              t' = selectMeasurements (rewriteStatement c (statements ! k)) ! j
          in (mDatabase t = [] \<and> Database c \<noteq> [] \<longrightarrow> mDatabase t' = Database c) \<and>
             (mRetentionPolicy t = [] \<longrightarrow> mRetentionPolicy t' = RetentionPolicy c) \<and>
             (mDatabase t \<noteq> [] \<longrightarrow> mDatabase t' = mDatabase t) \<and>
             (mRetentionPolicy t \<noteq> [] \<longrightarrow> mRetentionPolicy t' = mRetentionPolicy t) \<and>
             mName t' = mName t))"
  using assms
  by (simp add: rewriteSources_def selectMeasurements_rewriteStatement scopeMeasurement_fields Let_def)

theorem C3_sources_scoped_witness:
  "RetentionPolicy sessionRP1 \<noteq> [] \<and>
   exampleParse ''SELECT * FROM cpu, (SELECT * FROM other.autogen.mem)'' =
     Inr [SelectStatement
            [MeasurementRef \<lparr> mDatabase = [], mRetentionPolicy = [], mName = ''cpu'' \<rparr>,
             SubQuery [MeasurementRef \<lparr> mDatabase = ''other'', mRetentionPolicy = ''autogen'',
                                        mName = ''mem'' \<rparr>]]] \<and>
   rewriteSources exampleParse exampleString sessionRP1
       ''SELECT * FROM cpu, (SELECT * FROM other.autogen.mem)'' =
     Inr ''SELECT * FROM mydb.rp1.cpu, (SELECT * FROM other.autogen.mem)'' \<and>
   selectMeasurements (rewriteStatement sessionRP1
       (SelectStatement
            [MeasurementRef \<lparr> mDatabase = [], mRetentionPolicy = [], mName = ''cpu'' \<rparr>,
             SubQuery [MeasurementRef \<lparr> mDatabase = ''other'', mRetentionPolicy = ''autogen'',
                                        mName = ''mem'' \<rparr>]])) =
     [\<lparr> mDatabase = ''mydb'', mRetentionPolicy = ''rp1'', mName = ''cpu'' \<rparr>,
      \<lparr> mDatabase = ''other'', mRetentionPolicy = ''autogen'', mName = ''mem'' \<rparr>]"
proof -
  have a: "RetentionPolicy sessionRP1 \<noteq> []" by (simp add: sessionRP1_def)
  have b: "exampleParse ''SELECT * FROM cpu, (SELECT * FROM other.autogen.mem)'' =
     Inr [SelectStatement
            [MeasurementRef \<lparr> mDatabase = [], mRetentionPolicy = [], mName = ''cpu'' \<rparr>,
             SubQuery [MeasurementRef \<lparr> mDatabase = ''other'', mRetentionPolicy = ''autogen'',
                                        mName = ''mem'' \<rparr>]]]"
    by (simp add: exampleParse_def)
  from C3_sources_scoped [where c = sessionRP1 and ParseQuery = exampleParse and String = exampleString
      and q = "''SELECT * FROM cpu, (SELECT * FROM other.autogen.mem)''", OF a b] a b
  show ?thesis
    by (simp add: sessionRP1_def scopeMeasurement_def exampleString_def)
qed

text \<open>
  Claim C4. When the query text was obtained and the transport returns an error: an empty
  message with a cancelled context is reported as \<open>aborted by user\<close>, an empty message with
  a context that reports no error as \<open>no data received\<close>, and a message that is not empty
  is returned as it is.
\<close>

theorem C4_transport_error_classified:
  assumes "rewriteSources ParseQuery String c q = Inr q'" and "QueryContext (query c q') = Inl err"
  shows "(err = [] \<and> ctxErr c signalled = Some Canceled \<longrightarrow>
            ExecuteQuery ParseQuery String QueryContext signalled c q = Inl ''aborted by user'') \<and>
         (err = [] \<and> ctxErr c signalled = None \<longrightarrow>
            ExecuteQuery ParseQuery String QueryContext signalled c q = Inl ''no data received'') \<and>
         (err \<noteq> [] \<longrightarrow>
            ExecuteQuery ParseQuery String QueryContext signalled c q = Inl err)"
  using assms by (simp add: ExecuteQuery_def transportError_def)

theorem C4_transport_error_classified_witness:
  "rewriteSources exampleParse exampleString sessionRP1 ''SELECT * FROM cpu'' =
     Inr ''SELECT * FROM mydb.rp1.cpu'' \<and>
   ctxErr sessionRP1 True = Some Canceled \<and> ctxErr sessionRP1 False = None \<and>
   ExecuteQuery exampleParse exampleString (\<lambda>q. Inl [] :: string + unit) True sessionRP1
       ''SELECT * FROM cpu'' = Inl ''aborted by user'' \<and>
   ExecuteQuery exampleParse exampleString (\<lambda>q. Inl [] :: string + unit) False sessionRP1
       ''SELECT * FROM cpu'' = Inl ''no data received'' \<and>
   ExecuteQuery exampleParse exampleString (\<lambda>q. Inl ''connection refused'' :: string + unit) True
       sessionRP1 ''SELECT * FROM cpu'' = Inl ''connection refused''"
proof -
  have a: "rewriteSources exampleParse exampleString sessionRP1 ''SELECT * FROM cpu'' =
     Inr ''SELECT * FROM mydb.rp1.cpu''"
    by (simp add: rewriteSources_def exampleParse_def exampleString_def sessionRP1_def
        scopeMeasurement_def)
  have t: "ctxErr sessionRP1 True = Some Canceled" and f: "ctxErr sessionRP1 False = None"
    by (simp_all add: ctxErr_def sessionRP1_def)
  have e: "(\<lambda>q. Inl [] :: string + unit) (query sessionRP1 ''SELECT * FROM mydb.rp1.cpu'') = Inl []"
    by simp
  have r: "(\<lambda>q. Inl ''connection refused'' :: string + unit)
             (query sessionRP1 ''SELECT * FROM mydb.rp1.cpu'') = Inl ''connection refused''"
    by simp
  from C4_transport_error_classified [where QueryContext = "\<lambda>q. Inl [] :: string + unit"
      and signalled = True, OF a e]
    C4_transport_error_classified [where QueryContext = "\<lambda>q. Inl [] :: string + unit"
      and signalled = False, OF a e]
    C4_transport_error_classified [where QueryContext = "\<lambda>q. Inl ''connection refused'' :: string + unit"
      and signalled = True, OF a r] a t f
  show ?thesis by simp
qed


section \<open>Properties of the renderer\<close>

lemma foldl_snoc_map: "foldl (\<lambda>rows v. rows @ [g v]) rows vs = rows @ map g vs"
  by (induction vs arbitrary: rows) simp_all

lemma sort_sort_append: "sort (sort xs @ ys) = sort (xs @ (ys :: string list))"
  by (rule properties_for_sort) simp_all

lemma gatherTags_loop:
  "sorted acc \<Longrightarrow>
   foldl (\<lambda>tags (k, v). sortStrings (tags @ [k @ ''='' @ v])) acc es =
   sort (acc @ map (\<lambda>(k, v). k @ ''='' @ v) es)"
proof (induction es arbitrary: acc)
  case Nil
  then show ?case by (simp add: sort_key_id_if_sorted)
next
  case (Cons e es)
  obtain k v where e: "e = (k, v)" by (cases e)
  have "foldl (\<lambda>tags (k, v). sortStrings (tags @ [k @ ''='' @ v])) acc (e # es) =
        foldl (\<lambda>tags (k, v). sortStrings (tags @ [k @ ''='' @ v])) (sort (acc @ [k @ ''='' @ v])) es"
    by (simp add: e sortStrings_def)
  also have "\<dots> = sort (sort (acc @ [k @ ''='' @ v]) @ map (\<lambda>(k, v). k @ ''='' @ v) es)"
    by (rule Cons.IH) simp
  also have "\<dots> = sort (acc @ map (\<lambda>(k, v). k @ ''='' @ v) (e # es))"
    by (simp add: sort_sort_append e)
  finally show ?case .
qed

lemma gatherTags_sortedTags: "gatherTags (Tags row) = sortedTags row"
  using gatherTags_loop [of "[]" "tagEntries row"]
  by (simp add: gatherTags_def sortedTags_def tagEntries_def)

lemma sortedTags_empty: "sortedTags row = [] \<longleftrightarrow> tagEntries row = []"
proof -
  have "length (sortedTags row) = length (tagEntries row)"
    by (simp add: sortedTags_def)
  then show ?thesis by (metis length_0_conv)
qed

lemma formatSeries_csv:
  assumes "Format c = ''csv''"
  shows "formatSeries c sep sh rows i row =
    rows @ (if sh then [] else [Join (csvHeaderFields row) sep]) @
    map (\<lambda>v. Join (csvValueFields row v) sep) (Values row)"
  using assms
  by (simp add: formatSeries_def Let_def foldl_snoc_map gatherTags_sortedTags sortedTags_empty
      csvHeaderFields_def csvValueFields_def columnsOf_def)

lemma formatSeries_column_shown:
  assumes "Format c = ''column''"
  shows "formatSeries c sep False rows i row =
    rows @ (if i > 0 then [[]] else []) @ columnSeriesLines sep row"
  using assms
  by (simp add: formatSeries_def Let_def foldl_snoc_map gatherTags_sortedTags sortedTags_empty
      columnSeriesLines_def columnsOf_def)

lemma formatSeries_column_suppressed:
  assumes "Format c = ''column''"
  shows "formatSeries c sep True rows i row =
    rows @ map (\<lambda>v. Join (map interfaceToString v) sep) (Values row)"
  using assms
  by (simp add: formatSeries_def Let_def foldl_snoc_map)


lemma formatResults_loop_csv:
  assumes "Format c = ''csv''"
  shows "formatResults_loop c sep sh rows i series =
    rows @ concat (map (\<lambda>row. (if sh then [] else [Join (csvHeaderFields row) sep]) @
                               map (\<lambda>v. Join (csvValueFields row v) sep) (Values row)) series)"
  by (induction series arbitrary: rows i) (simp_all add: formatSeries_csv [OF assms])

lemma formatResults_loop_column_suppressed:
  assumes "Format c = ''column''"
  shows "formatResults_loop c sep True rows i series =
    rows @ concat (map (\<lambda>row. map (\<lambda>v. Join (map interfaceToString v) sep) (Values row)) series)"
  by (induction series arbitrary: rows i) (simp_all add: formatSeries_column_suppressed [OF assms])

lemma formatResults_loop_column_later:
  assumes "Format c = ''column''"
  shows "formatResults_loop c sep False rows (Suc i) series =
    rows @ concat (map (\<lambda>row. [] # columnSeriesLines sep row) series)"
  by (induction series arbitrary: rows i) (simp_all add: formatSeries_column_shown [OF assms])

lemma formatResults_column_shown:
  assumes "Format c = ''column''"
  shows "formatResults c result sep False = columnLines sep result"
  by (cases "Series result")
    (simp_all add: formatResults_def columnLines_def formatSeries_column_shown [OF assms]
      formatResults_loop_column_later [OF assms])

lemma formatResults_column_suppressed:
  assumes "Format c = ''column''"
  shows "formatResults c result sep True =
    concat (map (\<lambda>row. map (\<lambda>v. Join (map interfaceToString v) sep) (Values row)) (Series result))"
  by (simp add: formatResults_def formatResults_loop_column_suppressed [OF assms])

lemma formatResults_csv:
  assumes "Format c = ''csv''"
  shows "formatResults c result sep sh =
    concat (map (\<lambda>row. (if sh then [] else [Join (csvHeaderFields row) sep]) @
                        map (\<lambda>v. Join (csvValueFields row v) sep) (Values row)) (Series result))"
  by (simp add: formatResults_def formatResults_loop_csv [OF assms])

text \<open>With the headers suppressed only value rows are left, whatever the format.\<close>

lemma formatSeries_suppressed:
  "formatSeries c sep True rows i row =
    rows @ map (\<lambda>v. Join (if Format c = ''csv'' then csvValueFields row v
                           else map interfaceToString v) sep) (Values row)"
  by (simp add: formatSeries_def Let_def foldl_snoc_map gatherTags_sortedTags sortedTags_empty
      csvValueFields_def)

lemma formatResults_loop_suppressed:
  "formatResults_loop c sep True rows i series =
    rows @ concat (map (\<lambda>row. map (\<lambda>v. Join (if Format c = ''csv'' then csvValueFields row v
                           else map interfaceToString v) sep) (Values row)) series)"
  by (induction series arbitrary: rows i) (simp_all add: formatSeries_suppressed)

lemma formatResults_suppressed: "formatResults c result sep True = valueLines c sep result"
  by (simp add: formatResults_def valueLines_def formatResults_loop_suppressed)

text \<open>Header equality is an equivalence, so the loop only depends on the class of the
  header it carries.\<close>

lemma headersEqual_iff:
  "headersEqual a b \<longleftrightarrow>
     Name a = Name b \<and> map_option set (Tags a) = map_option set (Tags b) \<and> Columns a = Columns b"
  by (cases "Tags a"; cases "Tags b") (simp_all add: headersEqual_def tagsEqual_def columnsEqual_def)













text \<open>
  Claim C7. In CSV format with headers shown every series gives a header row and value
  rows whose fields start with \<open>name\<close> (the series name in a value row) exactly when the
  name is not empty, then \<open>tags\<close> (the sorted tags joined by commas) exactly when the series
  has tags, then the columns (the values). In column format the header row holds the
  columns only and a value row the values only, headers shown or not; name and tags are
  lines of their own.
\<close>

theorem C7_name_and_tags_columns:
  "(Format c = ''csv'' \<longrightarrow>
      formatResults c result sep False =
        concat (map (\<lambda>row. Join (csvHeaderFields row) sep #
                            map (\<lambda>v. Join (csvValueFields row v) sep) (Values row))
                 (Series result))) \<and>
   (Format c = ''column'' \<longrightarrow>
      formatResults c result sep False = columnLines sep result \<and>
      formatResults c result sep True =
        concat (map (\<lambda>row. map (\<lambda>v. Join (map interfaceToString v) sep) (Values row))
                 (Series result)))"
  by (simp add: formatResults_csv formatResults_column_shown formatResults_column_suppressed)

theorem C7_name_and_tags_columns_witness:
  "Format sessionRP1 = ''csv'' \<and> Format sessionDR = ''column'' \<and>
   formatResults sessionRP1 (Results exampleResponse ! 0) '','' False =
     [''name,tags,time,value'', ''cpu,dc=x,host=a,1,0.5''] \<and>
   formatResults sessionRP1 (Results exampleResponse ! 2) '','' False =
     [''name,time,free'', ''mem,3,''] \<and>
   formatResults sessionRP1 bareResult '','' False = [[], ''7,8''] \<and>
   formatResults sessionDR (Results exampleResponse ! 0) '','' False =
     [''name: cpu'', ''tags: dc=x, host=a'', ''time,value'', ''----,-----'', ''1,0.5''] \<and>
   formatResults sessionDR (Results exampleResponse ! 0) '','' True = [''1,0.5'']"
proof -
  have a: "Format sessionRP1 = ''csv''" by (simp add: sessionRP1_def)
  have b: "Format sessionDR = ''column''" by (simp add: sessionDR_def)
  have 1: "concat (map (\<lambda>row. Join (csvHeaderFields row) '','' #
                            map (\<lambda>v. Join (csvValueFields row v) '','') (Values row))
                 (Series (Results exampleResponse ! 0))) =
           [''name,tags,time,value'', ''cpu,dc=x,host=a,1,0.5'']"
    by code_simp
  have 2: "concat (map (\<lambda>row. Join (csvHeaderFields row) '','' #
                            map (\<lambda>v. Join (csvValueFields row v) '','') (Values row))
                 (Series (Results exampleResponse ! 2))) =
           [''name,time,free'', ''mem,3,'']"
    by code_simp
  have 3: "concat (map (\<lambda>row. Join (csvHeaderFields row) '','' #
                            map (\<lambda>v. Join (csvValueFields row v) '','') (Values row))
                 (Series bareResult)) = [[], ''7,8'']"
    by code_simp
  have 4: "columnLines '','' (Results exampleResponse ! 0) =
     [''name: cpu'', ''tags: dc=x, host=a'', ''time,value'', ''----,-----'', ''1,0.5'']"
    by code_simp
  have 5: "concat (map (\<lambda>row. map (\<lambda>v. Join (map interfaceToString v) '','') (Values row))
                 (Series (Results exampleResponse ! 0))) = [''1,0.5'']"
    by code_simp
  from C7_name_and_tags_columns [of sessionRP1 "Results exampleResponse ! 0" "'',''"]
    C7_name_and_tags_columns [of sessionRP1 "Results exampleResponse ! 2" "'',''"]
    C7_name_and_tags_columns [of sessionRP1 bareResult "'',''"]
    C7_name_and_tags_columns [of sessionDR "Results exampleResponse ! 0" "'',''"]
    a b 1 2 3 4 5
  show ?thesis by simp
qed

lemma headersEqual_zeroRow:
  "Name s0 = [] \<Longrightarrow> Tags s0 = None \<Longrightarrow> Columns s0 = None \<Longrightarrow> headersEqual zeroRow s0"
  by (simp add: headersEqual_iff zeroRow_def)

text \<open>
  Claim C10. If the first series of the first result has an empty name, a nil tag map and
  nil columns, its header equals the zero-valued start header: \<open>writeColumns\<close> and
  \<open>writeCSV\<close> both emit only the value rows of that result and go on with the start header
  unchanged.
\<close>

theorem C10_first_zero_header_suppressed:
  assumes "Series result = s0 # ss" and "Name s0 = []" and "Tags s0 = None" and "Columns s0 = None"
  shows "headersEqual zeroRow s0 \<and>
    writeColumns c \<lparr> Results = result # rest \<rparr> =
      map (\<lambda>m. Direct (Level m @ '': '' @ Text m @ ''.'')) (Messages result) @
      map Tabbed (valueLines c [CHR 0x09] result) @ writeColumns_loop c zeroRow (Suc 0) rest \<and>
    writeCSV c \<lparr> Results = result # rest \<rparr> =
      map (\<lambda>r. Split r (CHR 0x09)) (valueLines c [CHR 0x09] result) @ writeCSV_loop c zeroRow rest"
proof -
  have h: "headersEqual zeroRow s0"
    using assms(2-4) by (rule headersEqual_zeroRow)
  have s: "suppressed zeroRow result"
    using h assms(1) by (simp add: suppressed_def)
  have n: "nextHeaders zeroRow result = zeroRow"
    using h assms(1) by (simp add: nextHeaders_def)
  show ?thesis
    using h s n by (simp add: writeColumns_def writeCSV_def Let_def formatResults_suppressed)
qed

theorem C10_first_zero_header_suppressed_witness:
  "Series bareResult = [\<lparr> Name = [], Tags = None, Columns = None, Values = [[VInt 7, VInt 8]] \<rparr>] \<and>
   writeColumns sessionDR \<lparr> Results = [bareResult] \<rparr> = [Tabbed (''7'' @ [CHR 0x09] @ ''8'')] \<and>
   writeCSV sessionRP1 \<lparr> Results = [bareResult] \<rparr> = [[''7'', ''8'']]"
proof -
  have a: "Series bareResult =
      \<lparr> Name = [], Tags = None, Columns = None, Values = [[VInt 7, VInt 8]] \<rparr> # []"
    by (simp add: bareResult_def)
  have m: "Messages bareResult = []" by (simp add: bareResult_def)
  have 1: "valueLines sessionDR [CHR 0x09] bareResult = [''7'' @ [CHR 0x09] @ ''8'']"
    by code_simp
  have 2: "map (\<lambda>r. Split r (CHR 0x09)) (valueLines sessionRP1 [CHR 0x09] bareResult) = [[''7'', ''8'']]"
    by code_simp
  from C10_first_zero_header_suppressed [OF a, of sessionDR "[]"]
    C10_first_zero_header_suppressed [OF a, of sessionRP1 "[]"] a m 1 2
  show ?thesis by simp
qed

end
